theory Spec2Isabelle
  imports Main
begin

section \<open>Data model of app.go\<close>

text \<open>
  Errors are values. Every \<^verbatim>\<open>fmt.Errorf\<close> of app.go is one constructor that carries the
  wrapped cause; the first four constructors are errors that come from outside app.go
  (gorm's \<^verbatim>\<open>ErrRecordNotFound\<close> and \<^verbatim>\<open>ErrInvalidDB\<close>, a Go nil-pointer panic, and any error
  reported by a driver or by the storage file, kept as its message).
\<close>

datatype error =
    ErrRecordNotFound
  | ErrInvalidDB
  | NilPointerDereference
  | DriverError string
  | FailedOpenConfig error           \<comment> \<open>"failed to open config database: %v"\<close>
  | FailedMigrateConfig error        \<comment> \<open>"failed to migrate config database: %v"\<close>
  | FailedSaveConnection error       \<comment> \<open>"failed to save connection: %v"\<close>
  | FailedGetConnections error       \<comment> \<open>"failed to get connections: %v"\<close>
  | FailedDeleteConnection error     \<comment> \<open>"failed to delete connection: %v"\<close>
  | ConnectionNotFound error         \<comment> \<open>"connection not found: %v"\<close>
  | UnsupportedDatabaseType string   \<comment> \<open>"unsupported database type: %s"\<close>
  | FailedConnectToDatabase error    \<comment> \<open>"failed to connect to database: %v"\<close>
  | FailedConnect error              \<comment> \<open>"failed to connect: %v"\<close>
  | FailedUnderlyingDB error         \<comment> \<open>"failed to get underlying sql.DB: %v"\<close>
  | FailedPing error                 \<comment> \<open>"failed to ping database: %v"\<close>
  | NoActiveConnection               \<comment> \<open>"no active database connection"\<close>
  | FailedConnectionInfo error       \<comment> \<open>"failed to get connection info: %v"\<close>
  | UnsupportedForListing string     \<comment> \<open>"unsupported database type for table listing: %s"\<close>
  | FailedQueryTables error          \<comment> \<open>"failed to query tables: %v"\<close>
  | FailedColumnInfo error           \<comment> \<open>"failed to get column info: %v"\<close>
  | FailedTotalCount error           \<comment> \<open>"failed to get total count: %v"\<close>
  | FailedQueryTableData error       \<comment> \<open>"failed to query table data: %v"\<close>
  | FailedColumnNames error          \<comment> \<open>"failed to get column names: %v"\<close>

text \<open>
  The structs of app.go. \<^verbatim>\<open>uint\<close> ids are only stored and compared, never computed with,
  so they are natural numbers; \<^verbatim>\<open>time.Time\<close> is a clock reading; \<^verbatim>\<open>int64\<close> counts and
  the \<^verbatim>\<open>int\<close> arguments of a page request are integers (the code does no arithmetic
  on them).
\<close>

record Connection =
  ID :: nat
  Name :: string
  Type :: string
  DSN :: string
  CreatedAt :: nat
  UpdatedAt :: nat

record TableInfo =
  Name :: string
  RowCount :: int
  Schema :: string

record ColumnInfo =
  Name :: string
  Type :: string
  Nullable :: bool
  DefaultValue :: string
  IsPrimaryKey :: bool

text \<open>
  A Go \<^verbatim>\<open>interface{}\<close> holding what \<^verbatim>\<open>database/sql\<close> hands to a destination of that type:
  nil, int64, float64 (its bit pattern), bool, a byte slice, a string, or a time.
\<close>

datatype any =
    AnyNil
  | AnyInt64 int
  | AnyFloat64 nat
  | AnyBool bool
  | AnyBytes string
  | AnyString string
  | AnyTime nat

record TableData =
  Columns :: "ColumnInfo list"
  Rows :: "(string \<rightharpoonup> any) list"
  Total :: int

text \<open>\<^verbatim>\<open>sql.NullString\<close>.\<close>

record NullString =
  String :: string
  Valid :: bool

definition zero_Connection :: Connection where
  "zero_Connection =
     \<lparr>ID = 0, Name = [], Type = [], DSN = [], CreatedAt = 0, UpdatedAt = 0\<rparr>"

section \<open>The world outside app.go\<close>

text \<open>
  The configuration file config.db behind \<^verbatim>\<open>configDB\<close>: its rows in storage order and the
  largest id the table has handed out. gorm creates the \<^verbatim>\<open>uint\<close> primary key as
  \<^verbatim>\<open>integer PRIMARY KEY AUTOINCREMENT\<close>, so a new row gets the id \<open>seq + 1\<close>.
\<close>

record store =
  rows :: "Connection list"
  seq :: nat

text \<open>
  A \<^verbatim>\<open>*gorm.DB\<close> of a target database. \<^verbatim>\<open>ConnPool\<close> is the \<^verbatim>\<open>*sql.DB\<close> behind it, named by
  a handle number; gorm's \<^verbatim>\<open>DB()\<close> answers \<^verbatim>\<open>ErrInvalidDB\<close> exactly when there is none.
\<close>

datatype gorm_DB = GormDB (ConnPool: "nat option")

datatype driver = Postgres | SQLite

text \<open>
  What \<^verbatim>\<open>gorm.Open\<close> does with a driver and a DSN: it fails before a connection pool
  exists; it creates the pool and then fails (its own ping of the new pool fails: gorm
  returns the error and leaves the \<^verbatim>\<open>*sql.DB\<close> open); it succeeds without a \<^verbatim>\<open>*sql.DB\<close>;
  or it succeeds with one.
\<close>

datatype dial_outcome = DialError error | DialPoolThenError error | DialNoPool | DialOK

text \<open>
  The SQL texts the code sends, with the interpolated arguments:
  the two list-tables statements, \<^verbatim>\<open>SELECT COUNT(*) FROM t\<close>,
  \<^verbatim>\<open>SELECT * FROM t LIMIT l OFFSET o\<close>, the information_schema column query with its
  parameter, and \<^verbatim>\<open>PRAGMA table_info(t)\<close>. The code splices the table name into the
  text as it is; here the statement keeps the name apart, so a name stands for itself
  and not for more SQL.
\<close>

datatype sql =
    PgListTables
  | LiteListTables
  | SelectCount string
  | SelectPage string int int
  | PgColumns string
  | PragmaTableInfo string

text \<open>
  A \<^verbatim>\<open>*sql.Rows\<close> is the answer of \<^verbatim>\<open>Columns()\<close> and the rows that \<^verbatim>\<open>Next()\<close> delivers; each
  row is what \<^verbatim>\<open>Scan\<close> makes of it for the destinations the code passes: an error or
  the scanned values.
\<close>

record 'r sql_Rows =
  columns_of :: "error + string list"
  stream :: "(error + 'r) list"

type_synonym pg_column_row = "string \<times> string \<times> NullString \<times> NullString \<times> bool"
type_synonym lite_column_row = "int \<times> string \<times> string \<times> int \<times> NullString \<times> int"

text \<open>
  What the outside world answers during one call: the storage file at startup and whether
  the one configuration statement of the call fails, the clock, the drivers, and the
  target databases (by handle and statement). Each kind of statement has its own answer
  type, since the code scans each cursor into destinations of fixed types; the count is
  the outcome of \<^verbatim>\<open>QueryRow(...).Scan(&count)\<close>. Log lines are not modelled.
\<close>

record env =
  cfg_open :: "error + store"
  cfg_migrate :: "error option"
  cfg_error :: "error option"
  now :: nat
  dial :: "driver \<Rightarrow> string \<Rightarrow> dial_outcome"
  ping :: "nat \<Rightarrow> error option"
  query_names :: "nat \<Rightarrow> sql \<Rightarrow> error + string sql_Rows"
  query_count :: "nat \<Rightarrow> sql \<Rightarrow> error + int"
  query_page :: "nat \<Rightarrow> sql \<Rightarrow> error + (any list) sql_Rows"
  query_pg_columns :: "nat \<Rightarrow> sql \<Rightarrow> error + pg_column_row sql_Rows"
  query_lite_columns :: "nat \<Rightarrow> sql \<Rightarrow> error + lite_column_row sql_Rows"

text \<open>
  The \<^verbatim>\<open>App\<close> struct (without \<^verbatim>\<open>ctx\<close>), and two ghost fields that log the \<^verbatim>\<open>*sql.DB\<close>
  handles of target databases this process has opened and those it has closed.
  A nil pointer is \<open>None\<close>.
\<close>

record App =
  configDB :: "store option"
  activeDB :: "gorm_DB option"
  activeConnID :: nat
  opened :: "nat list"
  closed :: "nat list"

subsection \<open>gorm and database/sql, as far as app.go uses them\<close>

text \<open>
  \<^verbatim>\<open>db.Create(&conn)\<close>: stores the row under the next id and stamps both times.
\<close>

definition gorm_Create :: "env \<Rightarrow> store \<Rightarrow> Connection \<Rightarrow> error + store" where
  "gorm_Create e st conn =
     (case cfg_error e of
        Some err \<Rightarrow> Inl err
      | None \<Rightarrow>
          Inr \<lparr>rows = rows st @
                  [conn\<lparr>ID := Suc (seq st), CreatedAt := now e, UpdatedAt := now e\<rparr>],
               seq = Suc (seq st)\<rparr>)"

text \<open>\<^verbatim>\<open>db.Find(&connections)\<close> into a slice: every row.\<close>

definition gorm_Find_all :: "env \<Rightarrow> store \<Rightarrow> error + Connection list" where
  "gorm_Find_all e st = (case cfg_error e of Some err \<Rightarrow> Inl err | None \<Rightarrow> Inr (rows st))"

text \<open>
  \<^verbatim>\<open>db.Find(&connection, id)\<close> into a struct that starts as the zero value: when no row has
  the id, \<^verbatim>\<open>Find\<close> reports no error and leaves the destination untouched (only
  \<^verbatim>\<open>First\<close>, \<^verbatim>\<open>Take\<close> and \<^verbatim>\<open>Last\<close> raise \<^verbatim>\<open>ErrRecordNotFound\<close>).
\<close>

definition gorm_Find :: "env \<Rightarrow> store \<Rightarrow> nat \<Rightarrow> error + Connection" where
  "gorm_Find e st i =
     (case cfg_error e of
        Some err \<Rightarrow> Inl err
      | None \<Rightarrow>
          (case find (\<lambda>c. ID c = i) (rows st) of
             None \<Rightarrow> Inr zero_Connection
           | Some c \<Rightarrow> Inr c))"

text \<open>\<^verbatim>\<open>db.First(&connection, id)\<close>: \<^verbatim>\<open>ErrRecordNotFound\<close> when no row has the id.\<close>

definition gorm_First :: "env \<Rightarrow> store \<Rightarrow> nat \<Rightarrow> error + Connection" where
  "gorm_First e st i =
     (case cfg_error e of
        Some err \<Rightarrow> Inl err
      | None \<Rightarrow>
          (case find (\<lambda>c. ID c = i) (rows st) of
             None \<Rightarrow> Inl ErrRecordNotFound
           | Some c \<Rightarrow> Inr c))"

text \<open>\<^verbatim>\<open>db.Delete(&Connection{}, id)\<close>: removes the rows with the id; none is no error.\<close>

definition gorm_Delete :: "env \<Rightarrow> store \<Rightarrow> nat \<Rightarrow> error + store" where
  "gorm_Delete e st i =
     (case cfg_error e of
        Some err \<Rightarrow> Inl err
      | None \<Rightarrow> Inr (st\<lparr>rows := filter (\<lambda>c. ID c \<noteq> i) (rows st)\<rparr>))"

text \<open>
  \<^verbatim>\<open>gorm.Open(driver.Open(dsn), &gorm.Config{})\<close> for a target database. A successful
  open with a connection pool creates a new \<^verbatim>\<open>*sql.DB\<close>, logged in \<open>opened\<close>; so does
  an open that fails only after the pool was created, which returns the error and no
  usable handle for the caller to close.
\<close>

definition gorm_Open :: "env \<Rightarrow> driver \<Rightarrow> string \<Rightarrow> App \<Rightarrow> (error + gorm_DB) \<times> App" where
  "gorm_Open e drv dsn a =
     (case dial e drv dsn of
        DialError err \<Rightarrow> (Inl err, a)
      | DialPoolThenError err \<Rightarrow> (Inl err, a\<lparr>opened := opened a @ [length (opened a)]\<rparr>)
      | DialNoPool \<Rightarrow> (Inr (GormDB None), a)
      | DialOK \<Rightarrow>
          (let h = length (opened a)
           in (Inr (GormDB (Some h)), a\<lparr>opened := opened a @ [h]\<rparr>)))"

text \<open>\<^verbatim>\<open>db.DB()\<close>.\<close>

definition DB :: "gorm_DB \<Rightarrow> error + nat" where
  "DB db = (case ConnPool db of None \<Rightarrow> Inl ErrInvalidDB | Some h \<Rightarrow> Inr h)"

text \<open>\<^verbatim>\<open>sqlDB.Close()\<close>.\<close>

definition Close :: "nat \<Rightarrow> App \<Rightarrow> App" where
  "Close h a = a\<lparr>closed := closed a @ [h]\<rparr>"

section \<open>The operations of app.go\<close>

definition NewApp :: App where
  "NewApp = \<lparr>configDB = None, activeDB = None, activeConnID = 0, opened = [], closed = []\<rparr>"

definition initConfigDB :: "env \<Rightarrow> App \<Rightarrow> error option \<times> App" where
  "initConfigDB e a =
     (case cfg_open e of
        Inl err \<Rightarrow> (Some (FailedOpenConfig err), a)
      | Inr db \<Rightarrow>
          (case cfg_migrate e of
             Some err \<Rightarrow> (Some (FailedMigrateConfig err), a)
           | None \<Rightarrow> (None, a\<lparr>configDB := Some db\<rparr>)))"

text \<open>\<^verbatim>\<open>startup\<close>: an error of \<^verbatim>\<open>initConfigDB\<close> ends the process (\<^verbatim>\<open>log.Fatal\<close>).\<close>

definition startup :: "env \<Rightarrow> App \<Rightarrow> error option \<times> App" where
  "startup e a = initConfigDB e a"

definition saveConnection :: "env \<Rightarrow> string \<Rightarrow> string \<Rightarrow> string \<Rightarrow> App \<Rightarrow> error option \<times> App" where
  "saveConnection e name dbType dsn a =
     (case configDB a of
        None \<Rightarrow> (Some NilPointerDereference, a)
      | Some st \<Rightarrow>
          (let conn = zero_Connection\<lparr>Connection.Name := name, Connection.Type := dbType, DSN := dsn\<rparr>
           in case gorm_Create e st conn of
                Inl err \<Rightarrow> (Some (FailedSaveConnection err), a)
              | Inr st' \<Rightarrow> (None, a\<lparr>configDB := Some st'\<rparr>)))"

definition GetConnections :: "env \<Rightarrow> App \<Rightarrow> error + Connection list" where
  "GetConnections e a =
     (case configDB a of
        None \<Rightarrow> Inl NilPointerDereference
      | Some st \<Rightarrow>
          (case gorm_Find_all e st of
             Inl err \<Rightarrow> Inl (FailedGetConnections err)
           | Inr connections \<Rightarrow> Inr connections))"

definition DeleteConnection :: "env \<Rightarrow> nat \<Rightarrow> App \<Rightarrow> error option \<times> App" where
  "DeleteConnection e i a =
     (case configDB a of
        None \<Rightarrow> (Some NilPointerDereference, a)
      | Some st \<Rightarrow>
          (case gorm_Delete e st i of
             Inl err \<Rightarrow> (Some (FailedDeleteConnection err), a)
           | Inr st' \<Rightarrow>
               (let a1 = a\<lparr>configDB := Some st'\<rparr>
                in if activeConnID a1 = i
                   then (None, a1\<lparr>activeDB := None, activeConnID := 0\<rparr>)
                   else (None, a1))))"

definition ConnectToDatabase :: "env \<Rightarrow> nat \<Rightarrow> App \<Rightarrow> error option \<times> App" where
  "ConnectToDatabase e i a =
     (case configDB a of
        None \<Rightarrow> (Some NilPointerDereference, a)
      | Some st \<Rightarrow>
          (case gorm_Find e st i of
             Inl err \<Rightarrow> (Some (ConnectionNotFound err), a)
           | Inr connection \<Rightarrow>
               (case (if Connection.Type connection = ''postgres''
                        then Some (gorm_Open e Postgres (DSN connection) a)
                      else if Connection.Type connection = ''sqlite''
                        then Some (gorm_Open e SQLite (DSN connection) a)
                      else None) of
                  None \<Rightarrow> (Some (UnsupportedDatabaseType (Connection.Type connection)), a)
                | Some (Inl err, a1) \<Rightarrow> (Some (FailedConnectToDatabase err), a1)
                | Some (Inr db, a1) \<Rightarrow>
                    (case DB db of
                       Inl err \<Rightarrow> (Some (FailedUnderlyingDB err), a1)
                     | Inr sqlDB \<Rightarrow>
                         (case ping e sqlDB of
                            Some err \<Rightarrow> (Some (FailedPing err), a1)
                          | None \<Rightarrow> (None, a1\<lparr>activeDB := Some db, activeConnID := i\<rparr>))))))"

text \<open>
  \<^verbatim>\<open>TestConnection\<close>: the deferred \<^verbatim>\<open>sqlDB.Close()\<close> runs on both returns that follow it.
\<close>

definition TestConnection :: "env \<Rightarrow> string \<Rightarrow> string \<Rightarrow> App \<Rightarrow> error option \<times> App" where
  "TestConnection e dbType dsn a =
     (case (if dbType = ''postgres'' then Some (gorm_Open e Postgres dsn a)
            else if dbType = ''sqlite'' then Some (gorm_Open e SQLite dsn a)
            else None) of
        None \<Rightarrow> (Some (UnsupportedDatabaseType dbType), a)
      | Some (Inl err, a1) \<Rightarrow> (Some (FailedConnect err), a1)
      | Some (Inr db, a1) \<Rightarrow>
          (case DB db of
             Inl err \<Rightarrow> (Some (FailedUnderlyingDB err), a1)
           | Inr sqlDB \<Rightarrow>
               (case ping e sqlDB of
                  Some err \<Rightarrow> (Some (FailedPing err), Close sqlDB a1)
                | None \<Rightarrow> (None, Close sqlDB a1))))"

text \<open>
  The loop of \<^verbatim>\<open>GetTables\<close> over the rows of the list-tables statement: a row whose
  \<^verbatim>\<open>Scan\<close> fails is skipped, a count that fails is 0, and the entry is appended.
\<close>

fun GetTables_loop :: "env \<Rightarrow> nat \<Rightarrow> (error + string) list \<Rightarrow> TableInfo list \<Rightarrow> TableInfo list" where
  "GetTables_loop e sqlDB [] tables = tables"
| "GetTables_loop e sqlDB (Inl err # rest) tables = GetTables_loop e sqlDB rest tables"
| "GetTables_loop e sqlDB (Inr tableName # rest) tables =
     (let count = (case query_count e sqlDB (SelectCount tableName) of
                     Inl err \<Rightarrow> 0
                   | Inr n \<Rightarrow> n)
      in GetTables_loop e sqlDB rest
           (tables @ [\<lparr>TableInfo.Name = tableName, RowCount = count, Schema = []\<rparr>]))"

definition GetTables :: "env \<Rightarrow> App \<Rightarrow> error + TableInfo list" where
  "GetTables e a =
     (case activeDB a of
        None \<Rightarrow> Inl NoActiveConnection
      | Some adb \<Rightarrow>
          (case DB adb of
             Inl err \<Rightarrow> Inl (FailedUnderlyingDB err)
           | Inr sqlDB \<Rightarrow>
               (case configDB a of
                  None \<Rightarrow> Inl NilPointerDereference
                | Some st \<Rightarrow>
                    (case gorm_First e st (activeConnID a) of
                       Inl err \<Rightarrow> Inl (FailedConnectionInfo err)
                     | Inr connection \<Rightarrow>
                         (case (if Connection.Type connection = ''postgres''
                                  then Some (query_names e sqlDB PgListTables)
                                else if Connection.Type connection = ''sqlite''
                                  then Some (query_names e sqlDB LiteListTables)
                                else None) of
                            None \<Rightarrow> Inl (UnsupportedForListing (Connection.Type connection))
                          | Some (Inl err) \<Rightarrow> Inl (FailedQueryTables err)
                          | Some (Inr rs) \<Rightarrow> Inr (GetTables_loop e sqlDB (stream rs) []))))))"

text \<open>The two loops of \<^verbatim>\<open>getColumnInfo\<close>; \<^verbatim>\<open>col\<close> starts as the zero \<^verbatim>\<open>ColumnInfo\<close>.\<close>

fun postgres_columns_loop :: "(error + pg_column_row) list \<Rightarrow> ColumnInfo list \<Rightarrow> ColumnInfo list" where
  "postgres_columns_loop [] columns = columns"
| "postgres_columns_loop (Inl err # rest) columns = postgres_columns_loop rest columns"
| "postgres_columns_loop (Inr (name, typ, nullable, defaultVal, isPrimary) # rest) columns =
     postgres_columns_loop rest
       (columns @
          [\<lparr>Name = name, Type = typ,
            Nullable = (String nullable = ''YES''),
            DefaultValue = (if Valid defaultVal then String defaultVal else []),
            IsPrimaryKey = isPrimary\<rparr>])"

fun sqlite_columns_loop :: "(error + lite_column_row) list \<Rightarrow> ColumnInfo list \<Rightarrow> ColumnInfo list" where
  "sqlite_columns_loop [] columns = columns"
| "sqlite_columns_loop (Inl err # rest) columns = sqlite_columns_loop rest columns"
| "sqlite_columns_loop (Inr (cid, name, typ, notNull, defaultVal, pk) # rest) columns =
     sqlite_columns_loop rest
       (columns @
          [\<lparr>Name = name, Type = typ,
            Nullable = (notNull = 0),
            DefaultValue = (if Valid defaultVal then String defaultVal else []),
            IsPrimaryKey = (pk = 1)\<rparr>])"

text \<open>
  \<^verbatim>\<open>getColumnInfo\<close> does not check \<^verbatim>\<open>activeDB\<close>: on nil, \<^verbatim>\<open>a.activeDB.DB()\<close> panics.
\<close>

definition getColumnInfo :: "env \<Rightarrow> App \<Rightarrow> string \<Rightarrow> error + ColumnInfo list" where
  "getColumnInfo e a tableName =
     (case activeDB a of
        None \<Rightarrow> Inl NilPointerDereference
      | Some adb \<Rightarrow>
          (case DB adb of
             Inl err \<Rightarrow> Inl err
           | Inr sqlDB \<Rightarrow>
               (case configDB a of
                  None \<Rightarrow> Inl NilPointerDereference
                | Some st \<Rightarrow>
                    (case gorm_First e st (activeConnID a) of
                       Inl err \<Rightarrow> Inl err
                     | Inr connection \<Rightarrow>
                         (if Connection.Type connection = ''postgres'' then
                            (case query_pg_columns e sqlDB (PgColumns tableName) of
                               Inl err \<Rightarrow> Inl err
                             | Inr rs \<Rightarrow> Inr (postgres_columns_loop (stream rs) []))
                          else if Connection.Type connection = ''sqlite'' then
                            (case query_lite_columns e sqlDB (PragmaTableInfo tableName) of
                               Inl err \<Rightarrow> Inl err
                             | Inr rs \<Rightarrow> Inr (sqlite_columns_loop (stream rs) []))
                          else Inl (UnsupportedDatabaseType (Connection.Type connection)))))))"

text \<open>
  \<^verbatim>\<open>rows.Scan(valuePtrs...)\<close> with one \<^verbatim>\<open>*interface{}\<close> per column name: it fails when the
  row does not have that many values.
\<close>

definition Scan_values :: "nat \<Rightarrow> error + any list \<Rightarrow> error + any list" where
  "Scan_values n r =
     (case r of
        Inl err \<Rightarrow> Inl err
      | Inr vs \<Rightarrow>
          if length vs = n then Inr vs
          else Inl (DriverError ''sql: expected destination arguments in Scan''))"

text \<open>
  The inner loop of \<^verbatim>\<open>GetTableData\<close>, over the column names and the scanned values:
  nil is stored as nil, a byte slice as a string, anything else as it is. (The value
  slice has the length of \<^verbatim>\<open>columnNames\<close> and starts as all nil.)
\<close>

fun row_loop :: "string list \<Rightarrow> any list \<Rightarrow> (string \<rightharpoonup> any) \<Rightarrow> (string \<rightharpoonup> any)" where
  "row_loop [] values row = row"
| "row_loop (colName # cols) [] row = row_loop cols [] (row(colName \<mapsto> AnyNil))"
| "row_loop (colName # cols) (v # values) row =
     row_loop cols values
       (case v of
          AnyNil \<Rightarrow> row(colName \<mapsto> AnyNil)
        | AnyBytes b \<Rightarrow> row(colName \<mapsto> AnyString b)
        | _ \<Rightarrow> row(colName \<mapsto> v))"

text \<open>The outer loop: a row whose \<^verbatim>\<open>Scan\<close> fails is skipped.\<close>

fun GetTableData_loop ::
  "string list \<Rightarrow> (error + any list) list \<Rightarrow> (string \<rightharpoonup> any) list \<Rightarrow> (string \<rightharpoonup> any) list" where
  "GetTableData_loop columnNames [] data = data"
| "GetTableData_loop columnNames (r # rest) data =
     (case Scan_values (length columnNames) r of
        Inl err \<Rightarrow> GetTableData_loop columnNames rest data
      | Inr values \<Rightarrow>
          GetTableData_loop columnNames rest (data @ [row_loop columnNames values Map.empty]))"

definition GetTableData :: "env \<Rightarrow> App \<Rightarrow> string \<Rightarrow> int \<Rightarrow> int \<Rightarrow> error + TableData" where
  "GetTableData e a tableName offset limit =
     (case activeDB a of
        None \<Rightarrow> Inl NoActiveConnection
      | Some adb \<Rightarrow>
          (case DB adb of
             Inl err \<Rightarrow> Inl (FailedUnderlyingDB err)
           | Inr sqlDB \<Rightarrow>
               (case getColumnInfo e a tableName of
                  Inl err \<Rightarrow> Inl (FailedColumnInfo err)
                | Inr columns \<Rightarrow>
                    (case query_count e sqlDB (SelectCount tableName) of
                       Inl err \<Rightarrow> Inl (FailedTotalCount err)
                     | Inr total' \<Rightarrow>
                         (case query_page e sqlDB (SelectPage tableName limit offset) of
                            Inl err \<Rightarrow> Inl (FailedQueryTableData err)
                          | Inr rs \<Rightarrow>
                              (case columns_of rs of
                                 Inl err \<Rightarrow> Inl (FailedColumnNames err)
                               | Inr columnNames \<Rightarrow>
                                   Inr \<lparr>Columns = columns,
                                        Rows = GetTableData_loop columnNames (stream rs) [],
                                        Total = total'\<rparr>))))))"

section \<open>Sequences of operations\<close>

text \<open>
  One call of an operation of \<^verbatim>\<open>App\<close>; each call sees its own answers of the outside world.
  \<open>step\<close> keeps the state the call leaves behind and drops its result.
\<close>

datatype op =
    Startup
  | Save string string string
  | List
  | Delete nat
  | Connect nat
  | Test string string
  | Tables
  | Page string int int

fun step :: "App \<Rightarrow> env \<times> op \<Rightarrow> App" where
  "step a (e, Startup) = snd (startup e a)"
| "step a (e, Save name dbType dsn) = snd (saveConnection e name dbType dsn a)"
| "step a (e, List) = (case GetConnections e a of _ \<Rightarrow> a)"
| "step a (e, Delete i) = snd (DeleteConnection e i a)"
| "step a (e, Connect i) = snd (ConnectToDatabase e i a)"
| "step a (e, Test dbType dsn) = snd (TestConnection e dbType dsn a)"
| "step a (e, Tables) = (case GetTables e a of _ \<Rightarrow> a)"
| "step a (e, Page tableName offset limit) = (case GetTableData e a tableName offset limit of _ \<Rightarrow> a)"

definition run :: "(env \<times> op) list \<Rightarrow> App \<Rightarrow> App" where
  "run script a = foldl step a script"

text \<open>
  The ids in a configuration file are positive: SQLite numbers the rows of an
  AUTOINCREMENT table from 1.
\<close>

definition ids_positive :: "store \<Rightarrow> bool" where
  "ids_positive st = list_all (\<lambda>c. 0 < ID c) (rows st)"

definition files_sound :: "(env \<times> op) list \<Rightarrow> bool" where
  "files_sound script =
     list_all (\<lambda>(e, _). case cfg_open e of Inl err \<Rightarrow> True | Inr st \<Rightarrow> ids_positive st) script"

section \<open>What a target database answers to the page statement\<close>

text \<open>
  A table of a target database: its column names and its rows, one value per column.
  \<^verbatim>\<open>SELECT COUNT(*)\<close> is the number of rows. For \<^verbatim>\<open>LIMIT l OFFSET o\<close>, SQLite reads a
  negative limit as no limit and a negative offset as 0; PostgreSQL rejects both.
\<close>

record table =
  tcolumns :: "string list"
  trows :: "any list list"

definition table_sound :: "table \<Rightarrow> bool" where
  "table_sound tb = list_all (\<lambda>r. length r = length (tcolumns tb)) (trows tb)"

definition select_count :: "table \<Rightarrow> int" where
  "select_count tb = int (length (trows tb))"

definition select_page :: "driver \<Rightarrow> table \<Rightarrow> int \<Rightarrow> int \<Rightarrow> error + (any list) sql_Rows" where
  "select_page drv tb limit offset =
     (case drv of
        SQLite \<Rightarrow>
          Inr \<lparr>columns_of = Inr (tcolumns tb),
               stream = map Inr (if limit < 0 then drop (nat offset) (trows tb)
                                 else take (nat limit) (drop (nat offset) (trows tb)))\<rparr>
      | Postgres \<Rightarrow>
          if limit < 0 then Inl (DriverError ''LIMIT must not be negative'')
          else if offset < 0 then Inl (DriverError ''OFFSET must not be negative'')
          else Inr \<lparr>columns_of = Inr (tcolumns tb),
                    stream = map Inr (take (nat limit) (drop (nat offset) (trows tb)))\<rparr>)"

section \<open>Vocabulary of the theorems\<close>

text \<open>The rows of a cursor whose \<^verbatim>\<open>Scan\<close> succeeded, in the order delivered.\<close>

fun scanned :: "(error + 'r) list \<Rightarrow> 'r list" where
  "scanned [] = []"
| "scanned (Inl err # rest) = scanned rest"
| "scanned (Inr r # rest) = r # scanned rest"

text \<open>Handles that were opened and not closed.\<close>

definition leaked :: "App \<Rightarrow> nat list" where
  "leaked a = filter (\<lambda>h. h \<notin> set (closed a)) (opened a)"

text \<open>The handle and the id of the active connection are set or cleared together.\<close>

definition paired :: "App \<Rightarrow> bool" where
  "paired a = ((activeDB a = None) = (activeConnID a = 0))"

text \<open>The configuration file behind \<^verbatim>\<open>configDB\<close>, when there is one, has positive ids.\<close>

definition store_sound :: "App \<Rightarrow> bool" where
  "store_sound a = (case configDB a of None \<Rightarrow> True | Some st \<Rightarrow> ids_positive st)"

section \<open>A concrete world\<close>

text \<open>
  An empty config.db. \<^verbatim>\<open>file:missing.db\<close> does not open; for \<^verbatim>\<open>host=down\<close> the pool is
  created and \<^verbatim>\<open>gorm.Open\<close> then fails; every other DSN opens and answers the ping.
  The SQLite database holds the table \<open>t(id, name)\<close> with two rows and a table \<open>order\<close>,
  whose name is a keyword, so that the count statement with the name spliced in fails;
  the list-tables cursor also delivers one row that does not scan.
\<close>

definition demo_table :: table where
  "demo_table =
     \<lparr>tcolumns = [''id'', ''name''],
      trows = [[AnyInt64 1, AnyBytes ''a''], [AnyInt64 2, AnyNil]]\<rparr>"

definition demo_env :: env where
  "demo_env =
     \<lparr>cfg_open = Inr \<lparr>rows = [], seq = 0\<rparr>,
      cfg_migrate = None,
      cfg_error = None,
      now = 42,
      dial = (\<lambda>drv dsn. if dsn = ''file:missing.db''
                         then DialError (DriverError ''unable to open database file'')
                         else if dsn = ''host=down''
                         then DialPoolThenError (DriverError ''connection refused'')
                         else DialOK),
      ping = (\<lambda>h. None),
      query_names = (\<lambda>h q. case q of
           LiteListTables \<Rightarrow>
             Inr \<lparr>columns_of = Inr [''name''],
                  stream = [Inr ''t'', Inl (DriverError ''converting NULL to string is unsupported''),
                            Inr ''order'']\<rparr>
         | PgListTables \<Rightarrow>
             Inr \<lparr>columns_of = Inr [''table_name''], stream = [Inr ''orders'']\<rparr>
         | _ \<Rightarrow> Inl (DriverError ''syntax error'')),
      query_count = (\<lambda>h q. if q = SelectCount ''t'' then Inr 2
                            else Inl (DriverError ''syntax error'')),
      query_page = (\<lambda>h q. case q of
           SelectPage tb l off \<Rightarrow>
             if tb = ''t'' then select_page SQLite demo_table l off
             else Inl (DriverError ''no such table'')
         | _ \<Rightarrow> Inl (DriverError ''syntax error'')),
      query_pg_columns = (\<lambda>h q.
           Inr \<lparr>columns_of = Inr [],
                stream = [Inr (''id'', ''integer'', \<lparr>String = ''NO'', Valid = True\<rparr>,
                               \<lparr>String = [], Valid = False\<rparr>, True),
                          Inl (DriverError ''converting NULL to bool is unsupported''),
                          Inr (''note'', ''text'', \<lparr>String = ''YES'', Valid = True\<rparr>,
                               \<lparr>String = ''none'', Valid = True\<rparr>, False)]\<rparr>),
      query_lite_columns = (\<lambda>h q.
           Inr \<lparr>columns_of = Inr [],
                stream = [Inr (0, ''id'', ''int'', 1, \<lparr>String = [], Valid = False\<rparr>, 1),
                          Inl (DriverError ''converting NULL to int is unsupported''),
                          Inr (1, ''name'', ''text'', 0, \<lparr>String = ''x'', Valid = True\<rparr>, 0)]\<rparr>)\<rparr>"

text \<open>The same world with a target that opens but does not answer the ping.\<close>

definition unreachable_env :: env where
  "unreachable_env = demo_env\<lparr>ping := (\<lambda>h. Some (DriverError ''connection refused''))\<rparr>"

text \<open>The same world with a page cursor that delivers a row which does not scan.\<close>

definition flaky_env :: env where
  "flaky_env =
     demo_env\<lparr>query_page := (\<lambda>h q.
        Inr \<lparr>columns_of = Inr [''id'', ''name''],
             stream = [Inr [AnyInt64 1, AnyBytes ''a''], Inl (DriverError ''bad row''),
                       Inr [AnyInt64 2, AnyNil]]\<rparr>)\<rparr>"

text \<open>Start, then save a SQLite profile (id 1) and a PostgreSQL profile (id 2).\<close>

definition local_profile :: Connection where
  "local_profile =
     \<lparr>ID = 1, Name = ''local'', Type = ''sqlite'', DSN = ''file:test.db'',
      CreatedAt = 42, UpdatedAt = 42\<rparr>"

definition prod_profile :: Connection where
  "prod_profile =
     \<lparr>ID = 2, Name = ''prod'', Type = ''postgres'', DSN = ''host=db'',
      CreatedAt = 42, UpdatedAt = 42\<rparr>"

definition demo_store :: store where
  "demo_store = \<lparr>rows = [local_profile, prod_profile], seq = 2\<rparr>"

definition demo_saved :: App where
  "demo_saved =
     run [(demo_env, Startup),
          (demo_env, Save ''local'' ''sqlite'' ''file:test.db''),
          (demo_env, Save ''prod'' ''postgres'' ''host=db'')] NewApp"

definition demo_connected :: App where
  "demo_connected = run [(demo_env, Connect 1)] demo_saved"

definition pg_connected :: App where
  "pg_connected = run [(demo_env, Connect 2)] demo_saved"

text \<open>A session that ends with profile 1 active, after a probe and a failed connect.\<close>

definition demo_script :: "(env \<times> op) list" where
  "demo_script =
     [(demo_env, Startup),
      (demo_env, Save ''local'' ''sqlite'' ''file:test.db''),
      (demo_env, Save ''prod'' ''postgres'' ''host=db''),
      (demo_env, Connect 1),
      (unreachable_env, Test ''postgres'' ''host=db''),
      (demo_env, Tables),
      (demo_env, Page ''t'' 0 1),
      (demo_env, List),
      (unreachable_env, Connect 2)]"

section \<open>The concrete world, evaluated\<close>

lemma demo_saved_eq:
  "demo_saved =
     \<lparr>configDB = Some demo_store, activeDB = None, activeConnID = 0, opened = [], closed = []\<rparr>"
  by (simp add: demo_saved_def run_def NewApp_def startup_def initConfigDB_def
      saveConnection_def gorm_Create_def zero_Connection_def demo_env_def
      demo_store_def local_profile_def prod_profile_def)

lemma demo_connected_eq:
  "demo_connected =
     \<lparr>configDB = Some demo_store, activeDB = Some (GormDB (Some 0)), activeConnID = 1,
      opened = [0], closed = []\<rparr>"
  by (simp add: demo_connected_def run_def demo_saved_eq ConnectToDatabase_def gorm_Find_def
      gorm_Open_def DB_def demo_env_def demo_store_def local_profile_def prod_profile_def)

lemma pg_connected_eq:
  "pg_connected =
     \<lparr>configDB = Some demo_store, activeDB = Some (GormDB (Some 0)), activeConnID = 2,
      opened = [0], closed = []\<rparr>"
  by (simp add: pg_connected_def run_def demo_saved_eq ConnectToDatabase_def gorm_Find_def
      gorm_Open_def DB_def demo_env_def demo_store_def local_profile_def prod_profile_def)

lemma demo_First:
  "gorm_First demo_env demo_store (Suc 0) = Inr local_profile"
  "gorm_First demo_env demo_store 2 = Inr prod_profile"
  by (simp_all add: gorm_First_def demo_env_def demo_store_def local_profile_def
      prod_profile_def)

section \<open>The loops as maps over the scanned rows\<close>

lemma GetTables_loop_eq:
  "GetTables_loop e h rs acc =
     acc @ map (\<lambda>n. \<lparr>TableInfo.Name = n,
                       RowCount = (case query_count e h (SelectCount n) of Inl err \<Rightarrow> 0 | Inr k \<Rightarrow> k),
                       Schema = []\<rparr>) (scanned rs)"
  by (induction e h rs acc rule: GetTables_loop.induct) simp_all

lemma postgres_columns_loop_eq:
  "postgres_columns_loop rs acc =
     acc @ map (\<lambda>(name, typ, nullable, defaultVal, isPrimary).
                  \<lparr>Name = name, Type = typ, Nullable = (String nullable = ''YES''),
                   DefaultValue = (if Valid defaultVal then String defaultVal else []),
                   IsPrimaryKey = isPrimary\<rparr>) (scanned rs)"
  by (induction rs acc rule: postgres_columns_loop.induct) simp_all

lemma sqlite_columns_loop_eq:
  "sqlite_columns_loop rs acc =
     acc @ map (\<lambda>(cid, name, typ, notNull, defaultVal, pk).
                  \<lparr>Name = name, Type = typ, Nullable = (notNull = 0),
                   DefaultValue = (if Valid defaultVal then String defaultVal else []),
                   IsPrimaryKey = (pk = 1)\<rparr>) (scanned rs)"
  by (induction rs acc rule: sqlite_columns_loop.induct) simp_all

lemma GetTableData_loop_eq:
  "GetTableData_loop names rs acc =
     acc @ map (\<lambda>vs. row_loop names vs Map.empty)
             (filter (\<lambda>vs. length vs = length names) (scanned rs))"
proof (induction names rs acc rule: GetTableData_loop.induct)
  case (1 columnNames data)
  show ?case by simp
next
  case (2 columnNames r rest data)
  then show ?case
    by (cases r) (simp_all add: Scan_values_def)
qed

lemma row_loop_dom: "dom (row_loop cs vs row) = dom row \<union> set cs"
proof (induction cs vs row rule: row_loop.induct)
  case (1 "values" row)
  show ?case by simp
next
  case (2 colName cols row)
  then show ?case by (simp del: fun_upd_apply)
next
  case (3 colName cols v "values" row)
  then show ?case by (cases v) (simp_all del: fun_upd_apply)
qed

lemma row_loop_other: "c \<notin> set cs \<Longrightarrow> row_loop cs vs row c = row c"
proof (induction cs vs row rule: row_loop.induct)
  case (1 "values" row)
  show ?case by simp
next
  case (2 colName cols row)
  from 2(2) have notin: "c \<notin> set cols" and neq: "c \<noteq> colName" by auto
  have "row_loop (colName # cols) [] row c = row_loop cols [] (row(colName \<mapsto> AnyNil)) c"
    by simp
  also have "\<dots> = (row(colName \<mapsto> AnyNil)) c" by (rule 2(1) [OF notin])
  also have "\<dots> = row c" using neq by simp
  finally show ?case .
next
  case (3 colName cols v "values" row)
  from 3(2) have notin: "c \<notin> set cols" and neq: "c \<noteq> colName" by auto
  let ?row' = "case v of AnyNil \<Rightarrow> row(colName \<mapsto> AnyNil)
     | AnyBytes b \<Rightarrow> row(colName \<mapsto> AnyString b) | _ \<Rightarrow> row(colName \<mapsto> v)"
  have "row_loop (colName # cols) (v # values) row c = row_loop cols values ?row' c"
    by simp
  also have "\<dots> = ?row' c" by (rule 3(1) [OF notin])
  also have "\<dots> = row c" using neq by (cases v) simp_all
  finally show ?case .
qed

lemma row_loop_no_bytes:
  "\<forall>c b. row c \<noteq> Some (AnyBytes b) \<Longrightarrow> row_loop cs vs row c \<noteq> Some (AnyBytes b)"
proof (induction cs vs row rule: row_loop.induct)
  case (1 "values" row)
  then show ?case by simp
next
  case (2 colName cols row)
  have "\<forall>c b. (row(colName \<mapsto> AnyNil)) c \<noteq> Some (AnyBytes b)"
    using 2(2) by simp
  from 2(1) [OF this] show ?case by (simp del: fun_upd_apply)
next
  case (3 colName cols v "values" row)
  let ?row' = "case v of AnyNil \<Rightarrow> row(colName \<mapsto> AnyNil)
     | AnyBytes b \<Rightarrow> row(colName \<mapsto> AnyString b) | _ \<Rightarrow> row(colName \<mapsto> v)"
  have "\<forall>c b. ?row' c \<noteq> Some (AnyBytes b)"
    using 3(2) by (cases v) simp_all
  from 3(1) [OF this] show ?case by (simp del: fun_upd_apply)
qed

lemma row_loop_nth:
  "i < length cs \<Longrightarrow> length vs = length cs \<Longrightarrow>
   (\<forall>j. i < j \<and> j < length cs \<longrightarrow> cs ! j \<noteq> cs ! i) \<Longrightarrow>
   row_loop cs vs row (cs ! i) =
     Some (case vs ! i of AnyNil \<Rightarrow> AnyNil | AnyBytes b \<Rightarrow> AnyString b | _ \<Rightarrow> vs ! i)"
proof (induction cs vs row arbitrary: i rule: row_loop.induct)
  case (1 "values" row)
  then show ?case by simp
next
  case (2 colName cols row)
  then show ?case by simp
next
  case (3 colName cols v "values" row)
  show ?case
  proof (cases i)
    case 0
    have "colName \<notin> set cols"
    proof
      assume "colName \<in> set cols"
      then obtain k where "k < length cols" "cols ! k = colName"
        by (auto simp: in_set_conv_nth)
      with 3(4) 0 show False by (auto dest: spec [of _ "Suc k"])
    qed
    let ?row' = "case v of AnyNil \<Rightarrow> row(colName \<mapsto> AnyNil)
       | AnyBytes b \<Rightarrow> row(colName \<mapsto> AnyString b) | _ \<Rightarrow> row(colName \<mapsto> v)"
    have "row_loop (colName # cols) (v # values) row colName = row_loop cols values ?row' colName"
      by simp
    also have "\<dots> = ?row' colName" by (rule row_loop_other) fact
    also have "\<dots> = Some (case v of AnyNil \<Rightarrow> AnyNil | AnyBytes b \<Rightarrow> AnyString b | _ \<Rightarrow> v)"
      by (cases v) simp_all
    finally show ?thesis using 0 by (simp split: any.splits)
  next
    case (Suc k)
    have later: "\<forall>j. k < j \<and> j < length cols \<longrightarrow> cols ! j \<noteq> cols ! k"
    proof (intro allI impI)
      fix j assume "k < j \<and> j < length cols"
      with 3(4) Suc show "cols ! j \<noteq> cols ! k"
        by (auto dest: spec [of _ "Suc j"])
    qed
    from 3(2,3) Suc have "k < length cols" "length values = length cols" by simp_all
    from 3(1) [OF this later] Suc show ?thesis by (simp del: fun_upd_apply split: any.splits)
  qed
qed

section \<open>Schema introspection\<close>

text \<open>
  Claim C7. With an active connection whose profile is found and whose list-tables
  statement succeeds, \<^verbatim>\<open>GetTables\<close> returns one entry for every table name the cursor
  delivers, in the order delivered and with nothing else; the row count of an entry is
  the answer of the count statement, and 0 when that statement fails.
\<close>

theorem GetTables_every_name_in_order:
  assumes "activeDB a = Some (GormDB (Some h))"
    and "configDB a = Some st"
    and "gorm_First e st (activeConnID a) = Inr c"
    and "Connection.Type c = ''postgres'' \<and> query_names e h PgListTables = Inr rs
       \<or> Connection.Type c = ''sqlite'' \<and> query_names e h LiteListTables = Inr rs"
  shows "GetTables e a =
     Inr (map (\<lambda>n. \<lparr>TableInfo.Name = n,
                      RowCount = (case query_count e h (SelectCount n) of
                                    Inl err \<Rightarrow> 0 | Inr k \<Rightarrow> k),
                      Schema = []\<rparr>)
            (scanned (stream rs)))"
  using assms by (auto simp: GetTables_def DB_def GetTables_loop_eq)

theorem GetTables_every_name_in_order_witness:
  "activeDB demo_connected = Some (GormDB (Some 0))
   \<and> configDB demo_connected = Some demo_store
   \<and> gorm_First demo_env demo_store (activeConnID demo_connected) = Inr local_profile
   \<and> Connection.Type local_profile = ''sqlite''
   \<and> query_names demo_env 0 LiteListTables =
       Inr \<lparr>columns_of = Inr [''name''],
            stream = [Inr ''t'', Inl (DriverError ''converting NULL to string is unsupported''),
                      Inr ''order'']\<rparr>
   \<and> GetTables demo_env demo_connected =
       Inr [\<lparr>TableInfo.Name = ''t'', RowCount = 2, Schema = []\<rparr>,
            \<lparr>TableInfo.Name = ''order'', RowCount = 0, Schema = []\<rparr>]"
proof -
  let ?rs = "\<lparr>columns_of = Inr [''name''],
            stream = [Inr ''t'', Inl (DriverError ''converting NULL to string is unsupported''),
                      Inr ''order'']\<rparr>"
  have a: "activeDB demo_connected = Some (GormDB (Some 0))"
    and b: "configDB demo_connected = Some demo_store"
    and c: "gorm_First demo_env demo_store (activeConnID demo_connected) = Inr local_profile"
    by (simp_all add: demo_connected_eq demo_First)
  have t: "Connection.Type local_profile = ''sqlite''"
    by (simp add: local_profile_def)
  have d: "query_names demo_env 0 LiteListTables = Inr ?rs"
    by (simp add: demo_env_def)
  have cnt: "query_count demo_env 0 (SelectCount ''t'') = Inr 2"
     "query_count demo_env 0 (SelectCount ''order'') = Inl (DriverError ''syntax error'')"
    by (simp_all add: demo_env_def)
  from t d have d': "Connection.Type local_profile = ''postgres'' \<and> query_names demo_env 0 PgListTables = Inr ?rs
       \<or> Connection.Type local_profile = ''sqlite'' \<and> query_names demo_env 0 LiteListTables = Inr ?rs"
    by simp
  from GetTables_every_name_in_order [OF a b c d'] a b c t d cnt
  show ?thesis by simp
qed

text \<open>
  Claim C8. With an active connection whose profile is found, \<^verbatim>\<open>getColumnInfo\<close> returns
  one entry for every column row that scans, in order, and skips the others. For
  PostgreSQL, nullable is whether the scanned \<^verbatim>\<open>is_nullable\<close> string is \<^verbatim>\<open>"YES"\<close> and the
  primary-key flag is the scanned boolean; for SQLite, nullable is \<^verbatim>\<open>notnull == 0\<close> and
  the primary-key flag is \<^verbatim>\<open>pk == 1\<close>.
\<close>

theorem getColumnInfo_flags:
  assumes "activeDB a = Some (GormDB (Some h))"
    and "configDB a = Some st"
    and "gorm_First e st (activeConnID a) = Inr c"
  shows "(Connection.Type c = ''postgres'' \<longrightarrow>
            query_pg_columns e h (PgColumns t) = Inr prs \<longrightarrow>
            getColumnInfo e a t =
              Inr (map (\<lambda>(name, typ, nullable, defaultVal, isPrimary).
                          \<lparr>Name = name, Type = typ,
                           Nullable = (String nullable = ''YES''),
                           DefaultValue = (if Valid defaultVal then String defaultVal else []),
                           IsPrimaryKey = isPrimary\<rparr>)
                     (scanned (stream prs))))
       \<and> (Connection.Type c = ''sqlite'' \<longrightarrow>
            query_lite_columns e h (PragmaTableInfo t) = Inr lrs \<longrightarrow>
            getColumnInfo e a t =
              Inr (map (\<lambda>(cid, name, typ, notNull, defaultVal, pk).
                          \<lparr>Name = name, Type = typ,
                           Nullable = (notNull = 0),
                           DefaultValue = (if Valid defaultVal then String defaultVal else []),
                           IsPrimaryKey = (pk = 1)\<rparr>)
                     (scanned (stream lrs))))"
  using assms
  by (simp add: getColumnInfo_def DB_def postgres_columns_loop_eq sqlite_columns_loop_eq)

theorem getColumnInfo_flags_witness:
  "(activeDB pg_connected = Some (GormDB (Some 0))
    \<and> configDB pg_connected = Some demo_store
    \<and> gorm_First demo_env demo_store (activeConnID pg_connected) = Inr prod_profile
    \<and> Connection.Type prod_profile = ''postgres''
    \<and> getColumnInfo demo_env pg_connected ''orders'' =
        Inr [\<lparr>Name = ''id'', Type = ''integer'', Nullable = False, DefaultValue = [],
              IsPrimaryKey = True\<rparr>,
             \<lparr>Name = ''note'', Type = ''text'', Nullable = True, DefaultValue = ''none'',
              IsPrimaryKey = False\<rparr>])
   \<and> (activeDB demo_connected = Some (GormDB (Some 0))
    \<and> configDB demo_connected = Some demo_store
    \<and> gorm_First demo_env demo_store (activeConnID demo_connected) = Inr local_profile
    \<and> Connection.Type local_profile = ''sqlite''
    \<and> getColumnInfo demo_env demo_connected ''t'' =
        Inr [\<lparr>Name = ''id'', Type = ''int'', Nullable = False, DefaultValue = [],
              IsPrimaryKey = True\<rparr>,
             \<lparr>Name = ''name'', Type = ''text'', Nullable = True, DefaultValue = ''x'',
              IsPrimaryKey = False\<rparr>])"
proof -
  have pa: "activeDB pg_connected = Some (GormDB (Some 0))"
    and pb: "configDB pg_connected = Some demo_store"
    and pc: "gorm_First demo_env demo_store (activeConnID pg_connected) = Inr prod_profile"
    by (simp_all add: pg_connected_eq demo_First)
  have pt: "Connection.Type prod_profile = ''postgres''"
    by (simp add: prod_profile_def)
  have pq: "query_pg_columns demo_env 0 (PgColumns ''orders'') = Inr
     \<lparr>columns_of = Inr [],
                stream = [Inr (''id'', ''integer'', \<lparr>String = ''NO'', Valid = True\<rparr>,
                               \<lparr>String = [], Valid = False\<rparr>, True),
                          Inl (DriverError ''converting NULL to bool is unsupported''),
                          Inr (''note'', ''text'', \<lparr>String = ''YES'', Valid = True\<rparr>,
                               \<lparr>String = ''none'', Valid = True\<rparr>, False)]\<rparr>"
    by (simp add: demo_env_def)
  have la: "activeDB demo_connected = Some (GormDB (Some 0))"
    and lb: "configDB demo_connected = Some demo_store"
    and lc: "gorm_First demo_env demo_store (activeConnID demo_connected) = Inr local_profile"
    by (simp_all add: demo_connected_eq demo_First)
  have lt: "Connection.Type local_profile = ''sqlite''"
    by (simp add: local_profile_def)
  have lq: "query_lite_columns demo_env 0 (PragmaTableInfo ''t'') = Inr
      \<lparr>columns_of = Inr [],
                stream = [Inr (0, ''id'', ''int'', 1, \<lparr>String = [], Valid = False\<rparr>, 1),
                          Inl (DriverError ''converting NULL to int is unsupported''),
                          Inr (1, ''name'', ''text'', 0, \<lparr>String = ''x'', Valid = True\<rparr>, 0)]\<rparr>"
    by (simp add: demo_env_def)
  from getColumnInfo_flags [OF pa pb pc, THEN conjunct1, rule_format, OF pt pq]
  have p: "getColumnInfo demo_env pg_connected ''orders'' =
        Inr [\<lparr>Name = ''id'', Type = ''integer'', Nullable = False, DefaultValue = [],
              IsPrimaryKey = True\<rparr>,
             \<lparr>Name = ''note'', Type = ''text'', Nullable = True, DefaultValue = ''none'',
              IsPrimaryKey = False\<rparr>]" by simp
  from getColumnInfo_flags [OF la lb lc, THEN conjunct2, rule_format, OF lt lq]
  have l: "getColumnInfo demo_env demo_connected ''t'' =
        Inr [\<lparr>Name = ''id'', Type = ''int'', Nullable = False, DefaultValue = [],
              IsPrimaryKey = True\<rparr>,
             \<lparr>Name = ''name'', Type = ''text'', Nullable = True, DefaultValue = ''x'',
              IsPrimaryKey = False\<rparr>]" by simp
  from pa pb pc pt p la lb lc lt l show ?thesis by simp
qed

section \<open>Reading a page\<close>

lemma GetTableData_eq:
  assumes "activeDB a = Some (GormDB (Some h))"
    and "getColumnInfo e a t = Inr cols"
    and "query_count e h (SelectCount t) = Inr n"
    and "query_page e h (SelectPage t limit offset) = Inr rs"
    and "columns_of rs = Inr names"
  shows "GetTableData e a t offset limit =
     Inr \<lparr>Columns = cols,
          Rows = map (\<lambda>vs. row_loop names vs Map.empty)
                   (filter (\<lambda>vs. length vs = length names) (scanned (stream rs))),
          Total = n\<rparr>"
  using assms by (simp add: GetTableData_def DB_def GetTableData_loop_eq)

lemma flaky_page:
  "query_page flaky_env 0 (SelectPage ''t'' 10 0) =
     Inr \<lparr>columns_of = Inr [''id'', ''name''],
          stream = [Inr [AnyInt64 1, AnyBytes ''a''], Inl (DriverError ''bad row''),
                    Inr [AnyInt64 2, AnyNil]]\<rparr>"
  by (simp add: flaky_env_def)

lemma demo_columns:
  "getColumnInfo flaky_env demo_connected ''t'' =
        Inr [\<lparr>Name = ''id'', Type = ''int'', Nullable = False, DefaultValue = [],
              IsPrimaryKey = True\<rparr>,
             \<lparr>Name = ''name'', Type = ''text'', Nullable = True, DefaultValue = ''x'',
              IsPrimaryKey = False\<rparr>]"
  "getColumnInfo demo_env demo_connected ''t'' =
        Inr [\<lparr>Name = ''id'', Type = ''int'', Nullable = False, DefaultValue = [],
              IsPrimaryKey = True\<rparr>,
             \<lparr>Name = ''name'', Type = ''text'', Nullable = True, DefaultValue = ''x'',
              IsPrimaryKey = False\<rparr>]"
  by (simp_all add: getColumnInfo_def demo_connected_eq DB_def gorm_First_def flaky_env_def
      demo_env_def demo_store_def local_profile_def prod_profile_def)

text \<open>
  Claim C6. When the steps before the row loop succeed, \<^verbatim>\<open>GetTableData\<close> returns a page
  whatever the cursor delivers: a row whose \<^verbatim>\<open>Scan\<close> fails is skipped and the others are
  decoded in order. Every decoded row has exactly the column names as its keys, so a
  null is stored under its key as nil and no key is left out; no entry is a raw byte
  slice; and the entry of a column (the last one of that name) is nil for nil, the text
  for a byte slice, and the scanned value otherwise.
\<close>

theorem GetTableData_rows_decoded:
  assumes "activeDB a = Some (GormDB (Some h))"
    and "getColumnInfo e a t = Inr cols"
    and "query_count e h (SelectCount t) = Inr n"
    and "query_page e h (SelectPage t limit offset) = Inr rs"
    and "columns_of rs = Inr names"
  shows "\<exists>data.
      GetTableData e a t offset limit = Inr \<lparr>Columns = cols, Rows = data, Total = n\<rparr>
    \<and> length data = length (filter (\<lambda>vs. length vs = length names) (scanned (stream rs)))
    \<and> (\<forall>k < length data.
          dom (data ! k) = set names
        \<and> (\<forall>c b. (data ! k) c \<noteq> Some (AnyBytes b))
        \<and> (\<forall>i < length names.
              (\<forall>j. i < j \<and> j < length names \<longrightarrow> names ! j \<noteq> names ! i) \<longrightarrow>
              (data ! k) (names ! i) =
                Some (case filter (\<lambda>vs. length vs = length names) (scanned (stream rs)) ! k ! i of
                        AnyNil \<Rightarrow> AnyNil
                      | AnyBytes b \<Rightarrow> AnyString b
                      | v \<Rightarrow> v)))"
proof -
  let ?fit = "filter (\<lambda>vs. length vs = length names) (scanned (stream rs))"
  let ?data = "map (\<lambda>vs. row_loop names vs Map.empty) ?fit"
  have res: "GetTableData e a t offset limit = Inr \<lparr>Columns = cols, Rows = ?data, Total = n\<rparr>"
    using assms by (rule GetTableData_eq)
  have rows: "dom (?data ! k) = set names
        \<and> (\<forall>c b. (?data ! k) c \<noteq> Some (AnyBytes b))
        \<and> (\<forall>i < length names.
              (\<forall>j. i < j \<and> j < length names \<longrightarrow> names ! j \<noteq> names ! i) \<longrightarrow>
              (?data ! k) (names ! i) =
                Some (case ?fit ! k ! i of
                        AnyNil \<Rightarrow> AnyNil | AnyBytes b \<Rightarrow> AnyString b | v \<Rightarrow> v))"
    if k: "k < length ?data" for k
  proof -
    from k have kf: "k < length ?fit" by simp
    then have "?fit ! k \<in> set ?fit" by (rule nth_mem)
    then have len: "length (?fit ! k) = length names" by simp
    from kf have nth: "?data ! k = row_loop names (?fit ! k) Map.empty" by simp
    have "dom (?data ! k) = set names"
      unfolding nth by (simp add: row_loop_dom)
    moreover have "\<forall>c b. (?data ! k) c \<noteq> Some (AnyBytes b)"
      unfolding nth by (intro allI row_loop_no_bytes) simp
    moreover have "\<forall>i < length names.
              (\<forall>j. i < j \<and> j < length names \<longrightarrow> names ! j \<noteq> names ! i) \<longrightarrow>
              (?data ! k) (names ! i) =
                Some (case ?fit ! k ! i of
                        AnyNil \<Rightarrow> AnyNil | AnyBytes b \<Rightarrow> AnyString b | v \<Rightarrow> v)"
    proof (intro allI impI)
      fix i
      assume i: "i < length names"
        and last: "\<forall>j. i < j \<and> j < length names \<longrightarrow> names ! j \<noteq> names ! i"
      have "(?data ! k) (names ! i) =
          Some (case ?fit ! k ! i of
                  AnyNil \<Rightarrow> AnyNil | AnyBytes b \<Rightarrow> AnyString b | _ \<Rightarrow> ?fit ! k ! i)"
        unfolding nth by (rule row_loop_nth [OF i len last])
      then show "(?data ! k) (names ! i) =
          Some (case ?fit ! k ! i of
                  AnyNil \<Rightarrow> AnyNil | AnyBytes b \<Rightarrow> AnyString b | v \<Rightarrow> v)"
        by (simp split: any.splits)
    qed
    ultimately show ?thesis by blast
  qed
  show ?thesis
    apply (rule exI [of _ ?data])
    apply (intro conjI)
      apply (rule res)
     apply simp
    using rows apply blast
    done
qed

theorem GetTableData_rows_decoded_witness:
  "activeDB demo_connected = Some (GormDB (Some 0))
   \<and> query_count flaky_env 0 (SelectCount ''t'') = Inr 2
   \<and> query_page flaky_env 0 (SelectPage ''t'' 10 0) =
       Inr \<lparr>columns_of = Inr [''id'', ''name''],
            stream = [Inr [AnyInt64 1, AnyBytes ''a''], Inl (DriverError ''bad row''),
                      Inr [AnyInt64 2, AnyNil]]\<rparr>
   \<and> (\<exists>data. GetTableData flaky_env demo_connected ''t'' 0 10 =
         Inr \<lparr>Columns = [\<lparr>Name = ''id'', Type = ''int'', Nullable = False, DefaultValue = [],
                           IsPrimaryKey = True\<rparr>,
                          \<lparr>Name = ''name'', Type = ''text'', Nullable = True,
                           DefaultValue = ''x'', IsPrimaryKey = False\<rparr>],
              Rows = data, Total = 2\<rparr>
       \<and> length data = 2
       \<and> dom (data ! 0) = {''id'', ''name''}
       \<and> (data ! 0) ''name'' = Some (AnyString ''a'')
       \<and> dom (data ! 1) = {''id'', ''name''}
       \<and> (data ! 1) ''name'' = Some AnyNil)"
proof -
  let ?rs = "\<lparr>columns_of = Inr [''id'', ''name''],
            stream = [Inr [AnyInt64 1, AnyBytes ''a''], Inl (DriverError ''bad row''),
                      Inr [AnyInt64 2, AnyNil]]\<rparr>"
  have a: "activeDB demo_connected = Some (GormDB (Some 0))"
    by (simp add: demo_connected_eq)
  have n: "query_count flaky_env 0 (SelectCount ''t'') = Inr 2"
    by (simp add: flaky_env_def demo_env_def)
  have c: "columns_of ?rs = Inr [''id'', ''name'']" by simp
  from GetTableData_rows_decoded [OF a demo_columns(1) n flaky_page c]
  obtain data where
    res: "GetTableData flaky_env demo_connected ''t'' 0 10 =
         Inr \<lparr>Columns = [\<lparr>Name = ''id'', Type = ''int'', Nullable = False, DefaultValue = [],
                           IsPrimaryKey = True\<rparr>,
                          \<lparr>Name = ''name'', Type = ''text'', Nullable = True,
                           DefaultValue = ''x'', IsPrimaryKey = False\<rparr>],
              Rows = data, Total = 2\<rparr>"
    and len: "length data = 2"
    and rows: "\<forall>k < length data.
          dom (data ! k) = set [''id'', ''name'']
        \<and> (\<forall>c b. (data ! k) c \<noteq> Some (AnyBytes b))
        \<and> (\<forall>i < length [''id'', ''name''].
              (\<forall>j. i < j \<and> j < length [''id'', ''name''] \<longrightarrow> [''id'', ''name''] ! j \<noteq> [''id'', ''name''] ! i) \<longrightarrow>
              (data ! k) ([''id'', ''name''] ! i) =
                Some (case filter (\<lambda>vs. length vs = length [''id'', ''name'']) (scanned (stream ?rs)) ! k ! i of
                        AnyNil \<Rightarrow> AnyNil
                      | AnyBytes b \<Rightarrow> AnyString b
                      | v \<Rightarrow> v))"
    by auto
  from rows len have r0: "dom (data ! 0) = {''id'', ''name''}" and r1: "dom (data ! 1) = {''id'', ''name''}"
    by auto
  have last: "\<forall>j. 1 < j \<and> j < length [''id'', ''name''] \<longrightarrow>
      [''id'', ''name''] ! j \<noteq> [''id'', ''name''] ! 1"
    by simp
  have one: "1 < length [''id'', ''name'']" by simp
  from len have k0: "0 < length data" and k1: "1 < length data" by simp_all
  from rows k0 one last
  have "(data ! 0) ([''id'', ''name''] ! 1) =
      Some (case filter (\<lambda>vs. length vs = length [''id'', ''name''])
                   (scanned (stream ?rs)) ! 0 ! 1 of
              AnyNil \<Rightarrow> AnyNil | AnyBytes b \<Rightarrow> AnyString b | v \<Rightarrow> v)"
    by blast
  then have v0: "(data ! 0) ''name'' = Some (AnyString ''a'')" by simp
  from rows k1 one last
  have "(data ! 1) ([''id'', ''name''] ! 1) =
      Some (case filter (\<lambda>vs. length vs = length [''id'', ''name''])
                   (scanned (stream ?rs)) ! 1 ! 1 of
              AnyNil \<Rightarrow> AnyNil | AnyBytes b \<Rightarrow> AnyString b | v \<Rightarrow> v)"
    by blast
  then have v1: "(data ! 1) ''name'' = Some AnyNil" by simp
  from a n flaky_page res len r0 r1 v0 v1 show ?thesis by blast
qed

section \<open>The size of a page\<close>

lemma scanned_map_Inr: "scanned (map Inr xs) = xs"
  by (induction xs) simp_all

lemma sound_rows_fit:
  assumes "table_sound tb" and "set xs \<subseteq> set (trows tb)"
  shows "filter (\<lambda>vs. length vs = length (tcolumns tb)) xs = xs"
proof -
  from assms have "\<forall>vs \<in> set xs. length vs = length (tcolumns tb)"
    by (auto simp: table_sound_def list_all_iff)
  then show ?thesis by simp
qed

lemma select_page_answer:
  assumes "select_page drv tb limit offset = Inr rs"
  shows "columns_of rs = Inr (tcolumns tb)"
    and "stream rs = map Inr (if limit < 0 then drop (nat offset) (trows tb)
                              else take (nat limit) (drop (nat offset) (trows tb)))"
  using assms by (auto simp: select_page_def split: driver.splits if_splits)

lemma select_page_returns:
  assumes "drv = SQLite \<or> 0 \<le> limit \<and> 0 \<le> offset"
  shows "\<exists>rs. select_page drv tb limit offset = Inr rs"
  using assms by (cases drv) (auto simp: select_page_def)

lemma demo_table_sound: "table_sound demo_table"
  by (simp add: table_sound_def demo_table_def)

lemma demo_page:
  "query_count demo_env 0 (SelectCount ''t'') = Inr (select_count demo_table)"
  "query_page demo_env 0 (SelectPage ''t'' l off) = select_page SQLite demo_table l off"
  by (simp_all add: demo_env_def select_count_def demo_table_def)

text \<open>
  Claim C5, as the code has it, fails in two ways. SQLite reads a negative limit as no
  limit: with limit -1 on the two-row table \<open>t\<close> the page has two rows, which is neither
  \<open>min (-1) 2\<close> nor at most -1. And a table that \<^verbatim>\<open>GetTables\<close> lists need not have a page:
  for the listed table \<open>order\<close> the count statement fails, and \<^verbatim>\<open>GetTableData\<close> returns an
  error instead of a page.
\<close>

theorem GetTableData_negative_limit_counterexample:
  "\<not> isl (GetTableData demo_env demo_connected ''t'' 0 (-1))
   \<and> Total (projr (GetTableData demo_env demo_connected ''t'' 0 (-1))) = 2
   \<and> length (Rows (projr (GetTableData demo_env demo_connected ''t'' 0 (-1)))) = 2
   \<and> int (length (Rows (projr (GetTableData demo_env demo_connected ''t'' 0 (-1)))))
       \<noteq> min (-1) (Total (projr (GetTableData demo_env demo_connected ''t'' 0 (-1))))
   \<and> \<not> int (length (Rows (projr (GetTableData demo_env demo_connected ''t'' 0 (-1))))) \<le> -1
   \<and> map TableInfo.Name (projr (GetTables demo_env demo_connected)) = [''t'', ''order'']
   \<and> GetTableData demo_env demo_connected ''order'' 0 1 =
       Inl (FailedTotalCount (DriverError ''syntax error''))"
proof -
  have a: "activeDB demo_connected = Some (GormDB (Some 0))"
    by (simp add: demo_connected_eq)
  have rs: "query_page demo_env 0 (SelectPage ''t'' (-1) 0) =
      Inr \<lparr>columns_of = Inr [''id'', ''name''],
           stream = [Inr [AnyInt64 1, AnyBytes ''a''], Inr [AnyInt64 2, AnyNil]]\<rparr>"
    by (simp add: demo_page select_page_def demo_table_def)
  have n: "query_count demo_env 0 (SelectCount ''t'') = Inr 2"
    by (simp add: demo_env_def)
  have page: "GetTableData demo_env demo_connected ''t'' 0 (-1) =
     Inr \<lparr>Columns = [\<lparr>Name = ''id'', Type = ''int'', Nullable = False, DefaultValue = [],
                        IsPrimaryKey = True\<rparr>,
                      \<lparr>Name = ''name'', Type = ''text'', Nullable = True,
                        DefaultValue = ''x'', IsPrimaryKey = False\<rparr>],
          Rows = map (\<lambda>vs. row_loop [''id'', ''name''] vs Map.empty)
                   [[AnyInt64 1, AnyBytes ''a''], [AnyInt64 2, AnyNil]],
          Total = 2\<rparr>"
    by (simp add: GetTableData_eq [OF a demo_columns(2) n rs])
  have listed: "map TableInfo.Name (projr (GetTables demo_env demo_connected)) = [''t'', ''order'']"
    by (simp add: GetTables_def DB_def demo_connected_eq demo_First local_profile_def)
       (simp add: demo_env_def)
  have cols: "getColumnInfo demo_env demo_connected ''order'' = getColumnInfo demo_env demo_connected ''t''"
    by (simp add: getColumnInfo_def demo_connected_eq DB_def gorm_First_def demo_env_def
        demo_store_def local_profile_def prod_profile_def)
  have nopage: "GetTableData demo_env demo_connected ''order'' 0 1 =
       Inl (FailedTotalCount (DriverError ''syntax error''))"
    by (simp add: GetTableData_def DB_def a cols demo_columns(2)) (simp add: demo_env_def)
  from page listed nopage show ?thesis by simp
qed

text \<open>
  Claim C5, amended. The target holds the table under the name the statements use and
  answers the count and the page statement from its rows. Then a page is returned
  whenever the column lookup succeeds and the engine accepts the limit and the offset
  (SQLite always, PostgreSQL when neither is negative). Every page returned, for every
  limit and offset, carries the number of rows of the table as its total, has no rows
  when the offset is at least the total, and has no more rows than the total. When the
  limit is not negative, the page has no more rows than the limit, and exactly
  \<open>min limit total\<close> rows when the offset is 0.
\<close>

theorem GetTableData_page_size:
  assumes "activeDB a = Some (GormDB (Some h))"
    and "table_sound tb"
    and "query_count e h (SelectCount t) = Inr (select_count tb)"
    and "query_page e h (SelectPage t limit offset) = select_page drv tb limit offset"
  shows "((\<exists>cols. getColumnInfo e a t = Inr cols)
          \<and> (drv = SQLite \<or> 0 \<le> limit \<and> 0 \<le> offset) \<longrightarrow>
          (\<exists>td. GetTableData e a t offset limit = Inr td))
    \<and> (\<forall>td. GetTableData e a t offset limit = Inr td \<longrightarrow>
           Total td = int (length (trows tb))
         \<and> (Total td \<le> offset \<longrightarrow> Rows td = [])
         \<and> int (length (Rows td)) \<le> Total td
         \<and> (0 \<le> limit \<longrightarrow>
               int (length (Rows td)) \<le> limit
             \<and> (offset = 0 \<longrightarrow> int (length (Rows td)) = min limit (Total td))))"
proof -
  have returns: "\<exists>td. GetTableData e a t offset limit = Inr td"
    if cols: "getColumnInfo e a t = Inr cols"
      and ok: "drv = SQLite \<or> 0 \<le> limit \<and> 0 \<le> offset" for cols
  proof -
    from ok obtain rs where rs: "select_page drv tb limit offset = Inr rs"
      using select_page_returns by blast
    from assms(4) rs have "query_page e h (SelectPage t limit offset) = Inr rs" by simp
    from GetTableData_eq [OF assms(1) cols assms(3) this select_page_answer(1) [OF rs]]
    show ?thesis by blast
  qed
  have sizes: "Total td = int (length (trows tb))
         \<and> (Total td \<le> offset \<longrightarrow> Rows td = [])
         \<and> int (length (Rows td)) \<le> Total td
         \<and> (0 \<le> limit \<longrightarrow>
               int (length (Rows td)) \<le> limit
             \<and> (offset = 0 \<longrightarrow> int (length (Rows td)) = min limit (Total td)))"
    if td: "GetTableData e a t offset limit = Inr td" for td
  proof -
    let ?page = "if limit < 0 then drop (nat offset) (trows tb)
                 else take (nat limit) (drop (nat offset) (trows tb))"
    from td assms(1) obtain cols where cols: "getColumnInfo e a t = Inr cols"
      by (cases "getColumnInfo e a t") (simp_all add: GetTableData_def DB_def)
    from td assms(1,3,4) cols obtain rs where rs: "select_page drv tb limit offset = Inr rs"
      by (cases "select_page drv tb limit offset") (simp_all add: GetTableData_def DB_def)
    note strm = select_page_answer(2) [OF rs]
    have "set ?page \<subseteq> set (trows tb)"
      by (auto dest: in_set_takeD in_set_dropD)
    with \<open>table_sound tb\<close>
    have fit: "filter (\<lambda>vs. length vs = length (tcolumns tb)) ?page = ?page"
      by (rule sound_rows_fit)
    from assms(4) rs have "query_page e h (SelectPage t limit offset) = Inr rs" by simp
    from GetTableData_eq [OF assms(1) cols assms(3) this select_page_answer(1) [OF rs]] td
    have tot: "Total td = int (length (trows tb))"
      and rows: "Rows td = map (\<lambda>vs. row_loop (tcolumns tb) vs Map.empty)
                   (filter (\<lambda>vs. length vs = length (tcolumns tb)) ?page)"
      by (auto simp: strm scanned_map_Inr select_count_def)
    from rows fit have len: "length (Rows td) = length ?page" by simp
    have 1: "Rows td = []" if "Total td \<le> offset"
    proof -
      from that tot len have "length (Rows td) = 0" by (simp split: if_splits)
      then show ?thesis by simp
    qed
    have 2: "int (length (Rows td)) \<le> Total td"
      using len tot by (simp split: if_splits)
    have 3: "int (length (Rows td)) \<le> limit" if "0 \<le> limit"
      using that len by simp
    have 4: "int (length (Rows td)) = min limit (Total td)" if "0 \<le> limit" "offset = 0"
    proof -
      from that len have "length (Rows td) = min (nat limit) (length (trows tb))" by simp
      with tot that(1) show ?thesis by linarith
    qed
    from tot 1 2 3 4 show ?thesis by blast
  qed
  from returns sizes show ?thesis by blast
qed

theorem GetTableData_page_size_witness:
  "activeDB demo_connected = Some (GormDB (Some 0))
   \<and> table_sound demo_table
   \<and> query_count demo_env 0 (SelectCount ''t'') = Inr (select_count demo_table)
   \<and> query_page demo_env 0 (SelectPage ''t'' 1 0) = select_page SQLite demo_table 1 0
   \<and> query_page demo_env 0 (SelectPage ''t'' (-1) 2) = select_page SQLite demo_table (-1) 2
   \<and> (\<exists>td. GetTableData demo_env demo_connected ''t'' 0 1 = Inr td
         \<and> Total td = 2 \<and> length (Rows td) = 1)
   \<and> (\<exists>td. GetTableData demo_env demo_connected ''t'' 2 (-1) = Inr td
         \<and> Total td = 2 \<and> Rows td = [])"
proof -
  have a: "activeDB demo_connected = Some (GormDB (Some 0))"
    by (simp add: demo_connected_eq)
  note first = GetTableData_page_size [OF a demo_table_sound demo_page, of 1 0]
  note past = GetTableData_page_size [OF a demo_table_sound demo_page, of "-1" 2]
  from first demo_columns(2)
  obtain td where td: "GetTableData demo_env demo_connected ''t'' 0 1 = Inr td"
    by blast
  with first have "Total td = int (length (trows demo_table))"
    and "int (length (Rows td)) = min 1 (Total td)"
    by (simp_all del: One_nat_def)
  then have one: "Total td = 2" "length (Rows td) = 1"
    by (simp_all add: demo_table_def)
  from past demo_columns(2)
  obtain td' where td': "GetTableData demo_env demo_connected ''t'' 2 (-1) = Inr td'"
    by blast
  with past have tot': "Total td' = int (length (trows demo_table))"
    and "Total td' \<le> 2 \<longrightarrow> Rows td' = []"
    by simp_all
  then have two: "Total td' = 2" "Rows td' = []"
    by (simp_all add: demo_table_def)
  from td one td' two a demo_table_sound demo_page show ?thesis by blast
qed

section \<open>Connecting\<close>

text \<open>
  For an id that no row of the configuration file has, \<^verbatim>\<open>Find\<close> reports no error and the
  profile stays the zero value, whose type is the empty string: the call ends in the
  default branch of the switch.
\<close>

lemma ConnectToDatabase_no_row:
  assumes "configDB a = Some st" and "cfg_error e = None"
    and "i \<notin> ID ` set (rows st)"
  shows "ConnectToDatabase e i a = (Some (UnsupportedDatabaseType []), a)"
proof -
  from assms(3) have "find (\<lambda>c. ID c = i) (rows st) = None"
    by (auto simp: find_None_iff)
  with assms(1,2) show ?thesis
    by (simp add: ConnectToDatabase_def gorm_Find_def zero_Connection_def)
qed

text \<open>
  Claim C1, evaluated. Connecting to id 7, which the configuration file does not hold,
  answers \<^verbatim>\<open>unsupported database type:\<close> with an empty type name, not
  \<^verbatim>\<open>connection not found\<close>; the state, and with it the active connection, is unchanged.
\<close>

theorem ConnectToDatabase_absent_id:
  "configDB demo_saved = Some demo_store
   \<and> 7 \<notin> ID ` set (rows demo_store)
   \<and> ConnectToDatabase demo_env 7 demo_saved = (Some (UnsupportedDatabaseType []), demo_saved)"
proof -
  have a: "configDB demo_saved = Some demo_store" by (simp add: demo_saved_eq)
  have b: "cfg_error demo_env = None" by (simp add: demo_env_def)
  have c: "7 \<notin> ID ` set (rows demo_store)"
    by (simp add: demo_store_def local_profile_def prod_profile_def)
  from ConnectToDatabase_no_row [OF a b c] a c show ?thesis by simp
qed

text \<open>
  Claim C2, evaluated. Profile 2 (PostgreSQL) is stored and its DSN opens, but the ping
  fails: the call answers \<^verbatim>\<open>failed to ping database\<close> and returns with handle 0 opened,
  not closed, and not the active connection. The path does not depend on the driver:
  profile 1 (SQLite) gives the same.
\<close>

theorem ConnectToDatabase_ping_failure_keeps_handle_open:
  "find (\<lambda>c. ID c = 2) (rows demo_store) = Some prod_profile
   \<and> dial unreachable_env Postgres (DSN prod_profile) = DialOK
   \<and> ping unreachable_env 0 = Some (DriverError ''connection refused'')
   \<and> ConnectToDatabase unreachable_env 2 demo_saved =
       (Some (FailedPing (DriverError ''connection refused'')),
        \<lparr>configDB = Some demo_store, activeDB = None, activeConnID = 0,
         opened = [0], closed = []\<rparr>)
   \<and> leaked (snd (ConnectToDatabase unreachable_env 2 demo_saved)) = [0]
   \<and> find (\<lambda>c. ID c = 1) (rows demo_store) = Some local_profile
   \<and> dial unreachable_env SQLite (DSN local_profile) = DialOK
   \<and> ConnectToDatabase unreachable_env 1 demo_saved =
       (Some (FailedPing (DriverError ''connection refused'')),
        \<lparr>configDB = Some demo_store, activeDB = None, activeConnID = 0,
         opened = [0], closed = []\<rparr>)
   \<and> leaked (snd (ConnectToDatabase unreachable_env 1 demo_saved)) = [0]"
  by (simp add: ConnectToDatabase_def gorm_Find_def gorm_Open_def DB_def leaked_def
      demo_saved_eq unreachable_env_def demo_env_def demo_store_def local_profile_def
      prod_profile_def)

text \<open>
  Claim C3, evaluated. Profile 1 is active on handle 0; connecting to profile 2 succeeds
  and makes handle 1 and id 2 the active connection, and handle 0 is still open when the
  call returns.
\<close>

theorem ConnectToDatabase_replace_keeps_previous_open:
  "activeDB demo_connected = Some (GormDB (Some 0))
   \<and> activeConnID demo_connected = 1
   \<and> ConnectToDatabase demo_env 2 demo_connected =
       (None,
        \<lparr>configDB = Some demo_store, activeDB = Some (GormDB (Some 1)), activeConnID = 2,
         opened = [0, 1], closed = []\<rparr>)
   \<and> leaked (snd (ConnectToDatabase demo_env 2 demo_connected)) = [0, 1]"
  by (simp add: ConnectToDatabase_def gorm_Find_def gorm_Open_def DB_def leaked_def
      demo_connected_eq demo_env_def demo_store_def local_profile_def prod_profile_def)

text \<open>
  \<^verbatim>\<open>TestConnection\<close> leaves the configuration, the active handle and the active id as
  they are, whatever the type, the DSN, the state and the outcome. Of the handles:
  it opens none and closes none; or it opens one and closes that same one (the deferred
  \<^verbatim>\<open>Close\<close>, on a failed and on a successful ping); or \<^verbatim>\<open>gorm.Open\<close> created the pool and then
  failed, and the call returns before the \<^verbatim>\<open>defer\<close> with that handle open.
\<close>

lemma TestConnection_active_unchanged:
  "configDB (snd (TestConnection e dbType dsn a)) = configDB a
   \<and> activeDB (snd (TestConnection e dbType dsn a)) = activeDB a
   \<and> activeConnID (snd (TestConnection e dbType dsn a)) = activeConnID a
   \<and> (opened (snd (TestConnection e dbType dsn a)) = opened a
        \<and> closed (snd (TestConnection e dbType dsn a)) = closed a
      \<or> opened (snd (TestConnection e dbType dsn a)) = opened a @ [length (opened a)]
        \<and> closed (snd (TestConnection e dbType dsn a)) = closed a @ [length (opened a)]
      \<or> (\<exists>err. fst (TestConnection e dbType dsn a) = Some (FailedConnect err))
        \<and> opened (snd (TestConnection e dbType dsn a)) = opened a @ [length (opened a)]
        \<and> closed (snd (TestConnection e dbType dsn a)) = closed a)"
  by (simp add: TestConnection_def gorm_Open_def DB_def Close_def Let_def
      split: dial_outcome.splits option.splits)

lemma TestConnection_closes_after_ping:
  "fst (TestConnection unreachable_env ''sqlite'' ''file:other.db'' demo_connected) =
     Some (FailedPing (DriverError ''connection refused''))
   \<and> opened (snd (TestConnection unreachable_env ''sqlite'' ''file:other.db'' demo_connected)) = [0, 1]
   \<and> closed (snd (TestConnection unreachable_env ''sqlite'' ''file:other.db'' demo_connected)) = [1]
   \<and> fst (TestConnection demo_env ''sqlite'' ''file:other.db'' demo_connected) = None
   \<and> opened (snd (TestConnection demo_env ''sqlite'' ''file:other.db'' demo_connected)) = [0, 1]
   \<and> closed (snd (TestConnection demo_env ''sqlite'' ''file:other.db'' demo_connected)) = [1]"
  by (simp add: TestConnection_def gorm_Open_def DB_def Close_def unreachable_env_def
      demo_env_def demo_connected_eq)

text \<open>
  Claim C4, evaluated. Profile 1 is active on handle 0. A probe of a PostgreSQL DSN for
  which \<^verbatim>\<open>gorm.Open\<close> creates the pool and then fails answers \<^verbatim>\<open>failed to connect\<close>; the
  active handle and id are unchanged, and the probe's handle 1 is open, not closed, when
  the call returns.
\<close>

theorem TestConnection_failed_open_keeps_handle_open:
  "activeDB demo_connected = Some (GormDB (Some 0))
   \<and> activeConnID demo_connected = 1
   \<and> dial demo_env Postgres ''host=down'' = DialPoolThenError (DriverError ''connection refused'')
   \<and> TestConnection demo_env ''postgres'' ''host=down'' demo_connected =
       (Some (FailedConnect (DriverError ''connection refused'')),
        \<lparr>configDB = Some demo_store, activeDB = Some (GormDB (Some 0)), activeConnID = 1,
         opened = [0, 1], closed = []\<rparr>)
   \<and> leaked (snd (TestConnection demo_env ''postgres'' ''host=down'' demo_connected)) = [0, 1]"
  by (simp add: TestConnection_def gorm_Open_def leaked_def demo_env_def demo_connected_eq)

section \<open>Deleting a profile\<close>

text \<open>
  Claim C9. After a \<^verbatim>\<open>DeleteConnection\<close> of id \<open>i\<close> that succeeds: if \<open>i\<close> was the active id,
  the active handle is nil and the active id is 0, and \<^verbatim>\<open>GetTables\<close> answers
  \<^verbatim>\<open>no active database connection\<close>; and no list that \<^verbatim>\<open>GetConnections\<close> returns has an
  entry with the id \<open>i\<close>.
\<close>

theorem DeleteConnection_clears_active:
  assumes "DeleteConnection e i a = (None, a')"
  shows "(activeConnID a = i \<longrightarrow>
            activeDB a' = None \<and> activeConnID a' = 0
          \<and> GetTables e' a' = Inl NoActiveConnection)
       \<and> (\<forall>cs. GetConnections e'' a' = Inr cs \<longrightarrow> i \<notin> ID ` set cs)"
  using assms
  by (auto simp: DeleteConnection_def gorm_Delete_def GetTables_def GetConnections_def
      gorm_Find_all_def Let_def split: option.splits if_splits sum.splits)

theorem DeleteConnection_clears_active_witness:
  "DeleteConnection demo_env 1 demo_connected =
     (None, \<lparr>configDB = Some \<lparr>rows = [prod_profile], seq = 2\<rparr>, activeDB = None,
             activeConnID = 0, opened = [0], closed = []\<rparr>)
   \<and> activeConnID demo_connected = 1
   \<and> GetTables demo_env
        \<lparr>configDB = Some \<lparr>rows = [prod_profile], seq = 2\<rparr>, activeDB = None,
         activeConnID = 0, opened = [0], closed = []\<rparr> = Inl NoActiveConnection
   \<and> GetConnections demo_env
        \<lparr>configDB = Some \<lparr>rows = [prod_profile], seq = 2\<rparr>, activeDB = None,
         activeConnID = 0, opened = [0], closed = []\<rparr> = Inr [prod_profile]
   \<and> 1 \<notin> ID ` set [prod_profile]"
proof -
  let ?a' = "\<lparr>configDB = Some \<lparr>rows = [prod_profile], seq = 2\<rparr>, activeDB = None,
             activeConnID = 0, opened = [0], closed = []\<rparr>"
  have d: "DeleteConnection demo_env 1 demo_connected = (None, ?a')"
    by (simp add: DeleteConnection_def gorm_Delete_def demo_connected_eq demo_env_def
        demo_store_def local_profile_def prod_profile_def)
  have i: "activeConnID demo_connected = 1"
    by (simp add: demo_connected_eq)
  have l: "GetConnections demo_env ?a' = Inr [prod_profile]"
    by (simp add: GetConnections_def gorm_Find_all_def demo_env_def)
  from DeleteConnection_clears_active [OF d, of demo_env demo_env] i l
  have "GetTables demo_env ?a' = Inl NoActiveConnection" "1 \<notin> ID ` set [prod_profile]"
    by blast+
  with d i l show ?thesis by blast
qed

section \<open>The active handle and the active id\<close>

lemma gorm_Find_positive:
  assumes "ids_positive st"
    and "gorm_Find e st i = Inr c"
    and "Connection.Type c \<noteq> []"
  shows "0 < i"
proof (cases "find (\<lambda>c. ID c = i) (rows st)")
  case None
  with assms(2,3) show ?thesis
    by (auto simp: gorm_Find_def zero_Connection_def split: option.splits)
next
  case (Some c')
  then have "c' \<in> set (rows st)" and "ID c' = i"
    by (auto simp: find_Some_iff)
  with assms(1) show ?thesis
    by (auto simp: ids_positive_def list_all_iff)
qed

lemma ConnectToDatabase_paired:
  assumes "paired a" and "store_sound a"
  shows "paired (snd (ConnectToDatabase e i a)) \<and> store_sound (snd (ConnectToDatabase e i a))"
proof (cases "configDB a")
  case None
  with assms show ?thesis by (simp add: ConnectToDatabase_def)
next
  case (Some st)
  with assms(2) have pos: "ids_positive st" by (simp add: store_sound_def)
  show ?thesis
  proof (cases "gorm_Find e st i")
    case (Inl err)
    with Some assms show ?thesis by (simp add: ConnectToDatabase_def)
  next
    case (Inr c)
    have i: "0 < i" if "Connection.Type c = ''postgres'' \<or> Connection.Type c = ''sqlite''"
      using gorm_Find_positive [OF pos Inr] that by auto
    from Some Inr assms i show ?thesis
      by (auto simp: ConnectToDatabase_def gorm_Open_def DB_def Let_def paired_def store_sound_def
          split: dial_outcome.splits option.splits)
  qed
qed

lemma step_paired:
  assumes "paired a" and "store_sound a"
    and "case cfg_open e of Inl err \<Rightarrow> True | Inr st \<Rightarrow> ids_positive st"
  shows "paired (step a (e, c)) \<and> store_sound (step a (e, c))"
proof (cases c)
  case Startup
  with assms show ?thesis
    by (auto simp: startup_def initConfigDB_def paired_def store_sound_def
        split: sum.splits option.splits)
next
  case (Save name dbType dsn)
  with assms show ?thesis
    by (auto simp: saveConnection_def gorm_Create_def paired_def store_sound_def
        ids_positive_def Let_def split: option.splits)
next
  case List
  with assms show ?thesis by simp
next
  case (Delete i)
  with assms show ?thesis
    by (auto simp: DeleteConnection_def gorm_Delete_def paired_def store_sound_def
        ids_positive_def list_all_iff Let_def split: option.splits)
next
  case (Connect i)
  with assms ConnectToDatabase_paired show ?thesis by simp
next
  case (Test dbType dsn)
  with assms show ?thesis
    by (auto simp: TestConnection_def gorm_Open_def DB_def Close_def paired_def
        store_sound_def Let_def split: dial_outcome.splits option.splits)
next
  case Tables
  with assms show ?thesis by simp
next
  case (Page tableName offset limit)
  with assms show ?thesis by simp
qed

lemma run_paired:
  assumes "files_sound script" and "paired a" and "store_sound a"
  shows "paired (run script a) \<and> store_sound (run script a)"
  using assms
proof (induction script arbitrary: a)
  case Nil
  then show ?case by (simp add: run_def)
next
  case (Cons x script)
  obtain e c where x: "x = (e, c)" by (cases x)
  from Cons.prems(1) x
  have ok: "case cfg_open e of Inl err \<Rightarrow> True | Inr st \<Rightarrow> ids_positive st"
    and rest: "files_sound script"
    by (simp_all add: files_sound_def)
  from step_paired [OF Cons.prems(2,3) ok]
  have "paired (step a (e, c))" "store_sound (step a (e, c))" by simp_all
  from Cons.IH [OF rest this] x show ?case by (simp add: run_def)
qed

lemma run_append: "run (xs @ ys) a = run ys (run xs a)"
  by (simp add: run_def)

text \<open>
  Claim C10. From \<^verbatim>\<open>NewApp\<close>, after any sequence of operations in any worlds whose
  configuration files have positive ids, the active handle is nil exactly when the
  active id is 0.
\<close>

theorem active_handle_and_id_together:
  assumes "files_sound script"
  shows "(activeDB (run script NewApp) = None) = (activeConnID (run script NewApp) = 0)"
proof -
  have "paired NewApp" "store_sound NewApp"
    by (simp_all add: paired_def store_sound_def NewApp_def)
  from run_paired [OF assms this] show ?thesis by (simp add: paired_def)
qed

theorem active_handle_and_id_together_witness:
  "files_sound demo_script
   \<and> activeConnID (run demo_script NewApp) = 1
   \<and> activeDB (run demo_script NewApp) \<noteq> None
   \<and> files_sound (demo_script @ [(demo_env, Delete 1)])
   \<and> activeConnID (run (demo_script @ [(demo_env, Delete 1)]) NewApp) = 0
   \<and> activeDB (run (demo_script @ [(demo_env, Delete 1)]) NewApp) = None"
proof -
  have s: "files_sound demo_script" "files_sound (demo_script @ [(demo_env, Delete 1)])"
    by (simp_all add: files_sound_def demo_script_def demo_env_def unreachable_env_def
        ids_positive_def)
  have split: "demo_script =
     [(demo_env, Startup),
      (demo_env, Save ''local'' ''sqlite'' ''file:test.db''),
      (demo_env, Save ''prod'' ''postgres'' ''host=db'')] @ [(demo_env, Connect 1)] @
     [(unreachable_env, Test ''postgres'' ''host=db''),
      (demo_env, Tables),
      (demo_env, Page ''t'' 0 1),
      (demo_env, List),
      (unreachable_env, Connect 2)]"
    by (simp add: demo_script_def)
  have r: "run demo_script NewApp =
      \<lparr>configDB = Some demo_store, activeDB = Some (GormDB (Some 0)), activeConnID = 1,
       opened = [0, 1, 2], closed = [1]\<rparr>"
    unfolding split run_append demo_saved_def [symmetric] demo_connected_def [symmetric]
    by (simp add: run_def demo_connected_eq TestConnection_def ConnectToDatabase_def
        gorm_Find_def gorm_Open_def DB_def Close_def unreachable_env_def demo_env_def
        demo_store_def local_profile_def prod_profile_def)
  then have i: "activeConnID (run demo_script NewApp) = 1" by simp
  have j: "activeConnID (run (demo_script @ [(demo_env, Delete 1)]) NewApp) = 0"
    by (simp add: run_append r) (simp add: run_def DeleteConnection_def gorm_Delete_def demo_env_def)
  from active_handle_and_id_together [OF s(1)] active_handle_and_id_together [OF s(2)] s i j
  show ?thesis by simp
qed

end
